theory Spec2Isabelle
  imports Complex_Main
begin

section \<open>Range-bound hedging strategy: data model\<close>

text \<open>
  The repository holds two variants of one QuantConnect algorithm:
  \<^item> the basic variant, \<^verbatim>\<open>Pips_And_Lots_Implementation/PipsAndLotsExample.py\<close>;
  \<^item> the enhanced variant, \<^verbatim>\<open>Trailing_Stop_Loss/TrailingStopWalkthroughExample.py\<close>.

  Prices, lot sizes and portfolio values are Python numbers; they are modelled as
  \<^typ>\<open>real\<close>, so every statement below is about exact arithmetic and says
  nothing about binary rounding. Python's \<^verbatim>\<open>/\<close> raises on a zero divisor and
  arithmetic on \<^verbatim>\<open>None\<close> raises; both are results of the model.

  Functions whose text is the same in the two files (\<^verbatim>\<open>OnOrderEvent\<close>,
  \<^verbatim>\<open>LiquidatePositions\<close>, \<^verbatim>\<open>ExecuteBuyOrder\<close>, \<^verbatim>\<open>ExecuteSellOrder\<close>,
  \<^verbatim>\<open>ManageRisk\<close>) are modelled once, over the fields both variants have. Where
  the two files differ, the definition of the basic variant carries the suffix
  \<open>_basic\<close> and the one of the enhanced variant the suffix \<open>_enhanced\<close>.
\<close>

datatype py_error = ZeroDivisionError | TypeError

text \<open>The fields that \<^verbatim>\<open>Initialize\<close> sets in both files.\<close>

record algo =
  r2r :: real
  buyLine :: "real option"
  sellLine :: "real option"
  maxDrawdown :: real
  positionSize :: real
  openBuyLots :: real
  openSellLots :: real

text \<open>
  The enhanced variant adds the range-refresh clock. Times and durations are counted in
  whole clock ticks (\<^verbatim>\<open>datetime\<close> and \<^verbatim>\<open>timedelta\<close> are exact).
\<close>

record algo_enhanced = algo +
  range_bound_threshold :: real
  range_period :: nat
  last_range_update :: int
  range_update_interval :: int

text \<open>
  The platform's indicators, read once per call: \<^verbatim>\<open>x.Current.Value\<close> and
  \<^verbatim>\<open>x.IsReady\<close> of \<^verbatim>\<open>self.sma\<close>, \<^verbatim>\<open>self.atr\<close>, \<^verbatim>\<open>self.high\<close>,
  \<^verbatim>\<open>self.low\<close>, and for the enhanced variant the Bollinger bands \<^verbatim>\<open>self.bb\<close>.
\<close>

record indicators =
  sma_Value :: real
  atr_Value :: real
  atr_IsReady :: bool
  high_Value :: real
  high_IsReady :: bool
  low_Value :: real
  low_IsReady :: bool

record indicators_enhanced = indicators +
  bb_IsReady :: bool
  bb_UpperBand :: real
  bb_LowerBand :: real
  bb_MiddleBand :: real

record portfolio =
  TotalPortfolioValue :: real
  TotalUnrealizedProfit :: real
  MarginRemaining :: real

datatype OrderStatus =
  New | Submitted | PartiallyFilled | Filled | Canceled | NoStatus | Invalid
  | CancelPending | UpdateSubmitted

datatype OrderDirection = Buy | Sell | Hold

text \<open>
  An order event as \<^verbatim>\<open>OnOrderEvent\<close> reads it: its status, and the direction and
  signed quantity of the order that \<^verbatim>\<open>Transactions.GetOrderById\<close> returns for it.
\<close>

record order_event =
  Status :: OrderStatus
  Direction :: OrderDirection
  Quantity :: real

text \<open>The order requests the strategy sends to the platform: signed quantity, then price.\<close>

datatype order_request =
  MarketOrder real
  | StopMarketOrder real real
  | LimitOrder real real

section \<open>Exposure bookkeeping\<close>

definition OnOrderEvent :: "'a algo_scheme \<Rightarrow> order_event \<Rightarrow> 'a algo_scheme" where
  "OnOrderEvent st orderEvent =
     (if Status orderEvent = Filled then
        (if Direction orderEvent = Buy
         then st\<lparr>openBuyLots := openBuyLots st + \<bar>Quantity orderEvent\<bar>\<rparr>
         else st\<lparr>openSellLots := openSellLots st + \<bar>Quantity orderEvent\<bar>\<rparr>)
      else st)"

text \<open>
  \<^verbatim>\<open>LiquidatePositions\<close> asks the platform to flatten (\<^verbatim>\<open>self.Liquidate()\<close>, which
  returns nothing the strategy reads) and zeroes both counters.
\<close>

definition LiquidatePositions :: "'a algo_scheme \<Rightarrow> 'a algo_scheme" where
  "LiquidatePositions st = st\<lparr>openBuyLots := 0, openSellLots := 0\<rparr>"

text \<open>A history of the bookkeeping: fill notifications and liquidation calls.\<close>

datatype transition = OrderEvent order_event | Liquidation

fun step :: "'a algo_scheme \<Rightarrow> transition \<Rightarrow> 'a algo_scheme" where
  "step st (OrderEvent ev) = OnOrderEvent st ev"
| "step st Liquidation = LiquidatePositions st"

fun run :: "'a algo_scheme \<Rightarrow> transition list \<Rightarrow> 'a algo_scheme" where
  "run st [] = st"
| "run st (t # ts) = run (step st t) ts"

section \<open>Position sizing\<close>

text \<open>
  \<^verbatim>\<open>(self.r2r + 1) / self.r2r\<close> is Python's true division; it raises
  \<^verbatim>\<open>ZeroDivisionError\<close> when \<^verbatim>\<open>r2r\<close> is zero. The bootstrap branch returns before
  the division is reached.
\<close>

definition CalculateBuyLots_basic :: "'a algo_scheme \<Rightarrow> portfolio \<Rightarrow> py_error + real" where
  "CalculateBuyLots_basic st pf =
     (if openBuyLots st = 0 \<and> openSellLots st = 0
      then Inr (TotalPortfolioValue pf * positionSize st)
      else if r2r st = 0 then Inl ZeroDivisionError
      else
        let base_lots = ((r2r st + 1) / r2r st * openSellLots st - openBuyLots st) * 1.1
        in Inr (min base_lots (TotalPortfolioValue pf * positionSize st)))"

definition CalculateSellLots_basic :: "'a algo_scheme \<Rightarrow> portfolio \<Rightarrow> py_error + real" where
  "CalculateSellLots_basic st pf =
     (if openBuyLots st = 0 \<and> openSellLots st = 0
      then Inr (TotalPortfolioValue pf * positionSize st)
      else if r2r st = 0 then Inl ZeroDivisionError
      else
        let base_lots = ((r2r st + 1) / r2r st * openBuyLots st - openSellLots st) * 1.1
        in Inr (min base_lots (TotalPortfolioValue pf * positionSize st)))"

text \<open>
  The enhanced variant computes \<^verbatim>\<open>base_size = TotalPortfolioValue * 0.02\<close> first (its
  comment: reduce from 10% to 2%) and never reads \<^verbatim>\<open>self.positionSize\<close>.
\<close>

definition CalculateBuyLots_enhanced :: "'a algo_scheme \<Rightarrow> portfolio \<Rightarrow> py_error + real" where
  "CalculateBuyLots_enhanced st pf =
     (let base_size = TotalPortfolioValue pf * 0.02 in
      if openBuyLots st = 0 \<and> openSellLots st = 0 then Inr base_size
      else if r2r st = 0 then Inl ZeroDivisionError
      else
        let base_lots = ((r2r st + 1) / r2r st * openSellLots st - openBuyLots st) * 1.1
        in Inr (min base_lots base_size))"

definition CalculateSellLots_enhanced :: "'a algo_scheme \<Rightarrow> portfolio \<Rightarrow> py_error + real" where
  "CalculateSellLots_enhanced st pf =
     (let base_size = TotalPortfolioValue pf * 0.02 in
      if openBuyLots st = 0 \<and> openSellLots st = 0 then Inr base_size
      else if r2r st = 0 then Inl ZeroDivisionError
      else
        let base_lots = ((r2r st + 1) / r2r st * openBuyLots st - openSellLots st) * 1.1
        in Inr (min base_lots base_size))"

section \<open>Order entry\<close>

text \<open>
  \<^verbatim>\<open>ExecuteBuyOrder\<close> computes both prices first (a \<^verbatim>\<open>TypeError\<close> when
  \<^verbatim>\<open>self.buyLine\<close> is still \<^verbatim>\<open>None\<close>), sends the market order, and reads the status of
  the ticket the platform returns; that status is the argument \<open>ticket_Status\<close>. The
  result is the new state with the requests sent, in the order they were sent.
\<close>

definition ExecuteBuyOrder ::
  "'a algo_scheme \<Rightarrow> 'b indicators_scheme \<Rightarrow> real \<Rightarrow> OrderStatus
     \<Rightarrow> py_error + ('a algo_scheme \<times> order_request list)" where
  "ExecuteBuyOrder st ind lots ticket_Status =
     (case buyLine st of
        None \<Rightarrow> Inl TypeError
      | Some bl \<Rightarrow>
          let stop_price = bl - atr_Value ind;
              take_profit = bl + (atr_Value ind * r2r st)
          in if ticket_Status = Filled
             then Inr (st\<lparr>openBuyLots := openBuyLots st + lots\<rparr>,
                       [MarketOrder lots,
                        StopMarketOrder (- lots) stop_price,
                        LimitOrder (- lots) take_profit])
             else Inr (st, [MarketOrder lots]))"

definition ExecuteSellOrder ::
  "'a algo_scheme \<Rightarrow> 'b indicators_scheme \<Rightarrow> real \<Rightarrow> OrderStatus
     \<Rightarrow> py_error + ('a algo_scheme \<times> order_request list)" where
  "ExecuteSellOrder st ind lots ticket_Status =
     (case sellLine st of
        None \<Rightarrow> Inl TypeError
      | Some sl \<Rightarrow>
          let stop_price = sl + atr_Value ind;
              take_profit = sl - (atr_Value ind * r2r st)
          in if ticket_Status = Filled
             then Inr (st\<lparr>openSellLots := openSellLots st + lots\<rparr>,
                       [MarketOrder (- lots),
                        StopMarketOrder lots stop_price,
                        LimitOrder lots take_profit])
             else Inr (st, [MarketOrder (- lots)]))"

section \<open>Risk gate and range tracking\<close>

definition IsVolatilityHigh_basic :: "'b indicators_scheme \<Rightarrow> bool" where
  "IsVolatilityHigh_basic ind = (atr_Value ind > atr_Value ind * 1.5)"

text \<open>
  \<^verbatim>\<open>UpdateRangeLevels\<close>, basic variant: nothing happens unless the three indicators are
  ready; the lines are then set only while one of them is still \<^verbatim>\<open>None\<close>. The two
  \<^verbatim>\<open>Plot\<close> calls draw a chart and change no field.
\<close>

definition UpdateRangeLevels_basic :: "'a algo_scheme \<Rightarrow> 'b indicators_scheme \<Rightarrow> 'a algo_scheme" where
  "UpdateRangeLevels_basic st ind =
     (if \<not> (high_IsReady ind \<and> low_IsReady ind \<and> atr_IsReady ind) then st
      else if buyLine st = None \<or> sellLine st = None then
        let range_buffer = atr_Value ind * 0.5
        in st\<lparr>buyLine := Some (low_Value ind - range_buffer),
              sellLine := Some (high_Value ind + range_buffer)\<rparr>
      else st)"

text \<open>
  Enhanced variant: also recomputed once \<^verbatim>\<open>range_update_interval\<close> has passed since
  \<^verbatim>\<open>last_range_update\<close>; \<open>current_time\<close> is \<^verbatim>\<open>self.Time\<close>.
\<close>

definition UpdateRangeLevels_enhanced ::
  "'a algo_enhanced_scheme \<Rightarrow> 'b indicators_scheme \<Rightarrow> int \<Rightarrow> 'a algo_enhanced_scheme" where
  "UpdateRangeLevels_enhanced st ind current_time =
     (if \<not> (high_IsReady ind \<and> low_IsReady ind \<and> atr_IsReady ind) then st
      else if buyLine st = None \<or> sellLine st = None
              \<or> current_time - last_range_update st \<ge> range_update_interval st then
        let range_buffer = atr_Value ind * 1.0
        in st\<lparr>buyLine := Some (low_Value ind - range_buffer),
              sellLine := Some (high_Value ind + range_buffer),
              last_range_update := current_time\<rparr>
      else st)"

text \<open>
  \<^verbatim>\<open>IsRangeBound\<close> (enhanced variant only); \<open>price\<close> is
  \<^verbatim>\<open>self.Securities[self.symbol].Price\<close>. The division by the middle band is not
  guarded in the source and raises when the middle band is zero. The second division is
  by \<^verbatim>\<open>band_difference\<close>, which the epsilon test has already made non-zero.
\<close>

definition IsRangeBound :: "'b indicators_enhanced_scheme \<Rightarrow> real \<Rightarrow> py_error + bool" where
  "IsRangeBound ind price =
     (if \<not> bb_IsReady ind then Inr False
      else
        let upper_band = bb_UpperBand ind;
            lower_band = bb_LowerBand ind;
            middle_band = bb_MiddleBand ind;
            band_difference = upper_band - lower_band
        in if \<bar>band_difference\<bar> < 0.00001 then Inr False
           else if middle_band = 0 then Inl ZeroDivisionError
           else
             let band_width = band_difference / middle_band;
                 is_range = (0.0005 < band_width \<and> band_width < 0.01);
                 price_position = (price - lower_band) / band_difference;
                 within_bands = (0.1 < price_position \<and> price_position < 0.9);
                 is_flat = (\<bar>sma_Value ind - middle_band\<bar> < atr_Value ind * 0.5)
             in Inr (is_range \<and> within_bands \<and> is_flat))"

section \<open>Portfolio-level risk overlay\<close>

record RangeBoundRiskManagement =
  maximum_drawdown_percent :: real
  exit_triggered :: bool

datatype 'sym portfolio_target = PortfolioTarget 'sym real

text \<open>
  \<^verbatim>\<open>ManageRisk\<close>; \<open>keys\<close> is \<^verbatim>\<open>algorithm.Securities.Keys\<close>. The result is the overlay
  after the call with the list it returns.
\<close>

definition ManageRisk ::
  "RangeBoundRiskManagement \<Rightarrow> portfolio \<Rightarrow> 'sym list \<Rightarrow> 'sym portfolio_target list
     \<Rightarrow> py_error + (RangeBoundRiskManagement \<times> 'sym portfolio_target list)" where
  "ManageRisk rm pf keys targets =
     (if TotalPortfolioValue pf = 0 then Inl ZeroDivisionError
      else
        let total_unrealized_profit_pct = TotalUnrealizedProfit pf / TotalPortfolioValue pf
        in if total_unrealized_profit_pct < - maximum_drawdown_percent rm
           then Inr (rm\<lparr>exit_triggered := True\<rparr>, map (\<lambda>symbol. PortfolioTarget symbol 0) keys)
           else
             let rm' = (if exit_triggered rm \<and> total_unrealized_profit_pct \<ge> 0
                        then rm\<lparr>exit_triggered := False\<rparr> else rm)
             in Inr (rm', targets))"

section \<open>Initial states\<close>

text \<open>
  The strategy fields as \<^verbatim>\<open>Initialize\<close> leaves them in each file. The enhanced
  variant's clock counts microseconds from \<^verbatim>\<open>datetime.min\<close>; four hours are
  14400000000 of them.
\<close>

definition Initialize_basic :: algo where
  "Initialize_basic =
     \<lparr>r2r = 2, buyLine = None, sellLine = None, maxDrawdown = 0.02, positionSize = 0.01,
      openBuyLots = 0, openSellLots = 0\<rparr>"

definition Initialize_enhanced :: algo_enhanced where
  "Initialize_enhanced =
     \<lparr>r2r = 2, buyLine = None, sellLine = None, maxDrawdown = 0.02, positionSize = 0.1,
      openBuyLots = 0, openSellLots = 0,
      range_bound_threshold = 0.8, range_period = 20,
      last_range_update = 0, range_update_interval = 14400000000\<rparr>"

section \<open>Exposure counters\<close>

lemma OnOrderEvent_counters:
  "openBuyLots (OnOrderEvent st ev) =
     openBuyLots st + (if Status ev = Filled \<and> Direction ev = Buy then \<bar>Quantity ev\<bar> else 0)"
  "openSellLots (OnOrderEvent st ev) =
     openSellLots st + (if Status ev = Filled \<and> Direction ev \<noteq> Buy then \<bar>Quantity ev\<bar> else 0)"
  by (simp_all add: OnOrderEvent_def)

lemma run_append: "run st (xs @ ys) = run (run st xs) ys"
  by (induction xs arbitrary: st) simp_all

lemma run_no_liquidation_mono:
  "Liquidation \<notin> set ts \<Longrightarrow>
     openBuyLots st \<le> openBuyLots (run st ts) \<and> openSellLots st \<le> openSellLots (run st ts)"
proof (induction ts arbitrary: st)
  case Nil
  then show ?case by simp
next
  case (Cons t ts)
  then obtain ev where t: "t = OrderEvent ev"
    by (cases t) auto
  have "openBuyLots st \<le> openBuyLots (step st t)" "openSellLots st \<le> openSellLots (step st t)"
    by (simp_all add: t OnOrderEvent_counters)
  moreover have "openBuyLots (step st t) \<le> openBuyLots (run (step st t) ts)
      \<and> openSellLots (step st t) \<le> openSellLots (run (step st t) ts)"
    using Cons by simp
  ultimately show ?case by simp
qed

text \<open>
  C2. Take any history \<open>pre\<close> of fill notifications and liquidation calls. Over any
  continuation \<open>ts\<close> that holds no liquidation, neither counter decreases; one
  notification adds the absolute quantity of a filled order to the counter of its
  direction and nothing else; and right after a liquidation call both counters are 0.
\<close>

theorem exposure_bookkeeping:
  "(Liquidation \<notin> set ts \<longrightarrow>
      openBuyLots (run st pre) \<le> openBuyLots (run st (pre @ ts))
      \<and> openSellLots (run st pre) \<le> openSellLots (run st (pre @ ts)))
   \<and> openBuyLots (step st (OrderEvent ev)) =
       openBuyLots st + (if Status ev = Filled \<and> Direction ev = Buy then \<bar>Quantity ev\<bar> else 0)
   \<and> openSellLots (step st (OrderEvent ev)) =
       openSellLots st + (if Status ev = Filled \<and> Direction ev \<noteq> Buy then \<bar>Quantity ev\<bar> else 0)
   \<and> openBuyLots (run st (pre @ [Liquidation])) = 0
   \<and> openSellLots (run st (pre @ [Liquidation])) = 0"
  using run_no_liquidation_mono [of ts "run st pre"]
  by (simp add: run_append OnOrderEvent_counters LiquidatePositions_def)

theorem exposure_bookkeeping_witness:
  "Liquidation \<notin> set [OrderEvent \<lparr>Status = Filled, Direction = Sell, Quantity = - 3\<rparr>]
   \<and> openBuyLots (run Initialize_basic [OrderEvent \<lparr>Status = Filled, Direction = Buy, Quantity = 5\<rparr>]) = 5
   \<and> openSellLots (run Initialize_basic [OrderEvent \<lparr>Status = Filled, Direction = Buy, Quantity = 5\<rparr>]) = 0
   \<and> openSellLots (run Initialize_basic
        ([OrderEvent \<lparr>Status = Filled, Direction = Buy, Quantity = 5\<rparr>]
          @ [OrderEvent \<lparr>Status = Filled, Direction = Sell, Quantity = - 3\<rparr>])) = 3
   \<and> openBuyLots (run Initialize_basic
        ([OrderEvent \<lparr>Status = Filled, Direction = Buy, Quantity = 5\<rparr>] @ [Liquidation])) = 0"
  using exposure_bookkeeping
    [of "[OrderEvent \<lparr>Status = Filled, Direction = Sell, Quantity = - 3\<rparr>]" Initialize_basic
        "[OrderEvent \<lparr>Status = Filled, Direction = Buy, Quantity = 5\<rparr>]"]
  by (simp add: Initialize_basic_def OnOrderEvent_def)

section \<open>Position sizer\<close>

text \<open>
  The claim C3 read with the configured fraction, on the enhanced variant: from the
  state of \<^verbatim>\<open>Initialize\<close> (\<open>positionSize = 0.1\<close>, \<open>r2r = 2\<close>) with 10000 lots bought
  and a portfolio value of 500000, the claimed size is
  \<open>min 16500 (500000 * 0.1) = 16500\<close>, and \<^verbatim>\<open>CalculateSellLots\<close> returns 10000, its
  cap being \<open>500000 * 0.02\<close>. And for \<open>r2r = 0\<close>, which the claim does not exclude,
  the basic variant returns no size at all: the division raises.
\<close>

theorem rebalancing_size_capped_counterexample:
  "\<not> (openBuyLots (Initialize_enhanced\<lparr>openBuyLots := 10000\<rparr>) = 0
        \<and> openSellLots (Initialize_enhanced\<lparr>openBuyLots := 10000\<rparr>) = 0)
   \<and> positionSize (Initialize_enhanced\<lparr>openBuyLots := 10000\<rparr>) = 0.1
   \<and> min (((r2r (Initialize_enhanced\<lparr>openBuyLots := 10000\<rparr>) + 1)
              / r2r (Initialize_enhanced\<lparr>openBuyLots := 10000\<rparr>)
              * openBuyLots (Initialize_enhanced\<lparr>openBuyLots := 10000\<rparr>)
            - openSellLots (Initialize_enhanced\<lparr>openBuyLots := 10000\<rparr>)) * 1.1)
          (500000 * positionSize (Initialize_enhanced\<lparr>openBuyLots := 10000\<rparr>))
       = 16500
   \<and> CalculateSellLots_enhanced (Initialize_enhanced\<lparr>openBuyLots := 10000\<rparr>)
        \<lparr>TotalPortfolioValue = 500000, TotalUnrealizedProfit = 0, MarginRemaining = 500000\<rparr>
       = Inr 10000
   \<and> CalculateSellLots_basic (Initialize_basic\<lparr>r2r := 0, openBuyLots := 10000\<rparr>)
        \<lparr>TotalPortfolioValue = 1000000, TotalUnrealizedProfit = 0, MarginRemaining = 1000000\<rparr>
       = Inl ZeroDivisionError"
  by (simp add: Initialize_enhanced_def Initialize_basic_def CalculateSellLots_enhanced_def
      CalculateSellLots_basic_def)

text \<open>
  C3, amended. While the two counters are not both zero and \<^verbatim>\<open>r2r\<close> is not zero,
  \<^verbatim>\<open>CalculateSellLots\<close> returns the smaller of
  \<open>((r2r + 1) / r2r * openBuyLots - openSellLots) * 1.1\<close> and the per-trade cap, and
  \<^verbatim>\<open>CalculateBuyLots\<close> the same with the two counters swapped. The cap is
  \<open>TotalPortfolioValue * positionSize\<close> in the basic variant and
  \<open>TotalPortfolioValue * 0.02\<close> in the enhanced one, which does not read
  \<open>positionSize\<close>. With 10000 lots bought, none sold, \<open>r2r = 2\<close> and a cap of 10000
  the uncapped target is 16500 and the sell size is 10000.
\<close>

theorem rebalancing_size_capped:
  assumes "r2r st \<noteq> 0" and "\<not> (openBuyLots st = 0 \<and> openSellLots st = 0)"
  shows "CalculateSellLots_basic st pf =
           Inr (min (((r2r st + 1) / r2r st * openBuyLots st - openSellLots st) * 1.1)
                    (TotalPortfolioValue pf * positionSize st))
         \<and> CalculateBuyLots_basic st pf =
           Inr (min (((r2r st + 1) / r2r st * openSellLots st - openBuyLots st) * 1.1)
                    (TotalPortfolioValue pf * positionSize st))
         \<and> CalculateSellLots_enhanced st pf =
           Inr (min (((r2r st + 1) / r2r st * openBuyLots st - openSellLots st) * 1.1)
                    (TotalPortfolioValue pf * 0.02))
         \<and> CalculateBuyLots_enhanced st pf =
           Inr (min (((r2r st + 1) / r2r st * openSellLots st - openBuyLots st) * 1.1)
                    (TotalPortfolioValue pf * 0.02))"
proof -
  have not_bootstrap: "(openBuyLots st = 0 \<and> openSellLots st = 0) = False"
    using assms(2) by blast
  show ?thesis
    unfolding CalculateSellLots_basic_def CalculateBuyLots_basic_def
      CalculateSellLots_enhanced_def CalculateBuyLots_enhanced_def Let_def not_bootstrap
    using assms(1) by simp
qed

theorem rebalancing_size_capped_witness:
  "r2r (Initialize_basic\<lparr>openBuyLots := 10000\<rparr>) \<noteq> 0
   \<and> \<not> (openBuyLots (Initialize_basic\<lparr>openBuyLots := 10000\<rparr>) = 0
        \<and> openSellLots (Initialize_basic\<lparr>openBuyLots := 10000\<rparr>) = 0)
   \<and> ((2 + 1) / 2 * 10000 - 0) * 1.1 = (16500 :: real)
   \<and> CalculateSellLots_basic (Initialize_basic\<lparr>openBuyLots := 10000\<rparr>)
        \<lparr>TotalPortfolioValue = 1000000, TotalUnrealizedProfit = 0, MarginRemaining = 1000000\<rparr>
       = Inr 10000
   \<and> CalculateBuyLots_basic (Initialize_basic\<lparr>openBuyLots := 10000\<rparr>)
        \<lparr>TotalPortfolioValue = 1000000, TotalUnrealizedProfit = 0, MarginRemaining = 1000000\<rparr>
       = Inr (- 11000)
   \<and> r2r (Initialize_enhanced\<lparr>openBuyLots := 10000\<rparr>) \<noteq> 0
   \<and> \<not> (openBuyLots (Initialize_enhanced\<lparr>openBuyLots := 10000\<rparr>) = 0
        \<and> openSellLots (Initialize_enhanced\<lparr>openBuyLots := 10000\<rparr>) = 0)
   \<and> CalculateSellLots_enhanced (Initialize_enhanced\<lparr>openBuyLots := 10000\<rparr>)
        \<lparr>TotalPortfolioValue = 500000, TotalUnrealizedProfit = 0, MarginRemaining = 500000\<rparr>
       = Inr 10000"
  using rebalancing_size_capped [of "Initialize_basic\<lparr>openBuyLots := 10000\<rparr>"
      "\<lparr>TotalPortfolioValue = 1000000, TotalUnrealizedProfit = 0, MarginRemaining = 1000000\<rparr>"]
    rebalancing_size_capped [of "Initialize_enhanced\<lparr>openBuyLots := 10000\<rparr>"
      "\<lparr>TotalPortfolioValue = 500000, TotalUnrealizedProfit = 0, MarginRemaining = 500000\<rparr>"]
  by (simp add: Initialize_basic_def Initialize_enhanced_def)

text \<open>
  The claim C4 read on the enhanced variant with the fraction that \<^verbatim>\<open>Initialize\<close>
  configures there (\<open>positionSize = 0.1\<close>): with both counters zero and a portfolio
  value of 100000 the bootstrap size is 2000, not \<open>100000 * 0.1\<close>.
\<close>

theorem bootstrap_size_enhanced_counterexample:
  "openBuyLots Initialize_enhanced = 0 \<and> openSellLots Initialize_enhanced = 0
   \<and> positionSize Initialize_enhanced = 0.1
   \<and> CalculateBuyLots_enhanced Initialize_enhanced
        \<lparr>TotalPortfolioValue = 100000, TotalUnrealizedProfit = 0, MarginRemaining = 100000\<rparr>
       = Inr 2000
   \<and> CalculateBuyLots_enhanced Initialize_enhanced
        \<lparr>TotalPortfolioValue = 100000, TotalUnrealizedProfit = 0, MarginRemaining = 100000\<rparr>
       \<noteq> Inr (100000 * positionSize Initialize_enhanced)"
  by (simp add: CalculateBuyLots_enhanced_def Initialize_enhanced_def)

text \<open>
  C4, amended. With both counters zero, \<^verbatim>\<open>CalculateBuyLots\<close> and
  \<^verbatim>\<open>CalculateSellLots\<close> of the basic variant return exactly
  \<open>TotalPortfolioValue * positionSize\<close> (10000 for the configured 0.01 on a portfolio
  of 1000000); those of the enhanced variant return exactly
  \<open>TotalPortfolioValue * 0.02\<close>, whatever \<open>positionSize\<close> is configured.
\<close>

theorem bootstrap_size:
  assumes "openBuyLots st = 0" and "openSellLots st = 0"
  shows "CalculateBuyLots_basic st pf = Inr (TotalPortfolioValue pf * positionSize st)
         \<and> CalculateSellLots_basic st pf = Inr (TotalPortfolioValue pf * positionSize st)
         \<and> CalculateBuyLots_enhanced st pf = Inr (TotalPortfolioValue pf * 0.02)
         \<and> CalculateSellLots_enhanced st pf = Inr (TotalPortfolioValue pf * 0.02)"
  using assms
  by (simp add: CalculateSellLots_basic_def CalculateBuyLots_basic_def
      CalculateSellLots_enhanced_def CalculateBuyLots_enhanced_def)

theorem bootstrap_size_witness:
  "openBuyLots Initialize_basic = 0 \<and> openSellLots Initialize_basic = 0
   \<and> positionSize Initialize_basic = 0.01
   \<and> CalculateBuyLots_basic Initialize_basic
        \<lparr>TotalPortfolioValue = 1000000, TotalUnrealizedProfit = 0, MarginRemaining = 1000000\<rparr>
       = Inr 10000
   \<and> CalculateSellLots_basic Initialize_basic
        \<lparr>TotalPortfolioValue = 1000000, TotalUnrealizedProfit = 0, MarginRemaining = 1000000\<rparr>
       = Inr 10000
   \<and> openBuyLots Initialize_enhanced = 0 \<and> openSellLots Initialize_enhanced = 0
   \<and> CalculateBuyLots_enhanced Initialize_enhanced
        \<lparr>TotalPortfolioValue = 100000, TotalUnrealizedProfit = 0, MarginRemaining = 100000\<rparr>
       = Inr 2000
   \<and> CalculateSellLots_enhanced Initialize_enhanced
        \<lparr>TotalPortfolioValue = 100000, TotalUnrealizedProfit = 0, MarginRemaining = 100000\<rparr>
       = Inr 2000"
  using bootstrap_size [of Initialize_basic
      "\<lparr>TotalPortfolioValue = 1000000, TotalUnrealizedProfit = 0, MarginRemaining = 1000000\<rparr>"]
    bootstrap_size [of Initialize_enhanced
      "\<lparr>TotalPortfolioValue = 100000, TotalUnrealizedProfit = 0, MarginRemaining = 100000\<rparr>"]
  by (simp add: Initialize_basic_def Initialize_enhanced_def)

text \<open>
  C10. Two states of the enhanced variant that differ only in \<open>positionSize\<close> get the
  same result from \<^verbatim>\<open>CalculateBuyLots\<close> and from \<^verbatim>\<open>CalculateSellLots\<close>, error results
  included.
\<close>

theorem enhanced_sizing_ignores_positionSize:
  "CalculateBuyLots_enhanced (st\<lparr>positionSize := p\<rparr>) pf = CalculateBuyLots_enhanced st pf
   \<and> CalculateSellLots_enhanced (st\<lparr>positionSize := p\<rparr>) pf = CalculateSellLots_enhanced st pf"
  by (simp add: CalculateBuyLots_enhanced_def CalculateSellLots_enhanced_def Let_def)

section \<open>Volatility check and range levels\<close>

text \<open>
  C6. For a current ATR that is not negative, \<^verbatim>\<open>IsVolatilityHigh\<close> of the basic variant
  returns false.
\<close>

theorem basic_volatility_check_never_high:
  "0 \<le> atr_Value ind \<Longrightarrow> \<not> IsVolatilityHigh_basic ind"
  by (simp add: IsVolatilityHigh_basic_def)

theorem basic_volatility_check_never_high_witness:
  "0 \<le> atr_Value \<lparr>sma_Value = 1.1, atr_Value = 0.001, atr_IsReady = True,
        high_Value = 1.105, high_IsReady = True, low_Value = 1.1, low_IsReady = True\<rparr>
   \<and> \<not> IsVolatilityHigh_basic \<lparr>sma_Value = 1.1, atr_Value = 0.001, atr_IsReady = True,
        high_Value = 1.105, high_IsReady = True, low_Value = 1.1, low_IsReady = True\<rparr>"
  using basic_volatility_check_never_high
    [of "\<lparr>sma_Value = 1.1, atr_Value = 0.001, atr_IsReady = True,
        high_Value = 1.105, high_IsReady = True, low_Value = 1.1, low_IsReady = True\<rparr>"]
  by simp

text \<open>
  C5. With the three indicators ready, whenever \<^verbatim>\<open>UpdateRangeLevels\<close> recomputes (basic:
  a line is unset; enhanced: a line is unset or the update interval has passed), it sets
  \<open>buyLine = low - f * atr\<close> and \<open>sellLine = high + f * atr\<close>, with \<open>f = 0.5\<close> in the
  basic variant and \<open>f = 1.0\<close> in the enhanced one, which also records the time. If
  moreover \<open>low \<le> high\<close> and \<open>0 \<le> atr\<close>, then both lines are set and
  \<open>buyLine \<le> sellLine\<close>.
\<close>

theorem range_refresh_levels:
  assumes "high_IsReady ind" and "low_IsReady ind" and "atr_IsReady ind"
  shows "(buyLine st = None \<or> sellLine st = None \<longrightarrow>
            buyLine (UpdateRangeLevels_basic st ind) = Some (low_Value ind - 0.5 * atr_Value ind)
            \<and> sellLine (UpdateRangeLevels_basic st ind) = Some (high_Value ind + 0.5 * atr_Value ind)
            \<and> (low_Value ind \<le> high_Value ind \<and> 0 \<le> atr_Value ind \<longrightarrow>
                 (\<exists>b s. buyLine (UpdateRangeLevels_basic st ind) = Some b
                        \<and> sellLine (UpdateRangeLevels_basic st ind) = Some s \<and> b \<le> s)))
         \<and> (buyLine se = None \<or> sellLine se = None
              \<or> range_update_interval se \<le> now - last_range_update se \<longrightarrow>
            buyLine (UpdateRangeLevels_enhanced se ind now) = Some (low_Value ind - 1.0 * atr_Value ind)
            \<and> sellLine (UpdateRangeLevels_enhanced se ind now) = Some (high_Value ind + 1.0 * atr_Value ind)
            \<and> last_range_update (UpdateRangeLevels_enhanced se ind now) = now
            \<and> (low_Value ind \<le> high_Value ind \<and> 0 \<le> atr_Value ind \<longrightarrow>
                 (\<exists>b s. buyLine (UpdateRangeLevels_enhanced se ind now) = Some b
                        \<and> sellLine (UpdateRangeLevels_enhanced se ind now) = Some s \<and> b \<le> s)))"
proof -
  have basic: "UpdateRangeLevels_basic st ind =
      st\<lparr>buyLine := Some (low_Value ind - 0.5 * atr_Value ind),
         sellLine := Some (high_Value ind + 0.5 * atr_Value ind)\<rparr>"
    if "buyLine st = None \<or> sellLine st = None"
    using assms that by (auto simp add: UpdateRangeLevels_basic_def Let_def)
  have enhanced: "UpdateRangeLevels_enhanced se ind now =
      se\<lparr>buyLine := Some (low_Value ind - atr_Value ind),
         sellLine := Some (high_Value ind + atr_Value ind),
         last_range_update := now\<rparr>"
    if "buyLine se = None \<or> sellLine se = None
          \<or> range_update_interval se \<le> now - last_range_update se"
    using assms that by (auto simp add: UpdateRangeLevels_enhanced_def Let_def)
  show ?thesis
  proof (intro conjI impI)
    assume "low_Value ind \<le> high_Value ind \<and> 0 \<le> atr_Value ind"
      and c: "buyLine st = None \<or> sellLine st = None"
    then show "\<exists>b s. buyLine (UpdateRangeLevels_basic st ind) = Some b
        \<and> sellLine (UpdateRangeLevels_basic st ind) = Some s \<and> b \<le> s"
      by (simp add: basic [OF c])
  next
    assume "low_Value ind \<le> high_Value ind \<and> 0 \<le> atr_Value ind"
      and c: "buyLine se = None \<or> sellLine se = None
          \<or> range_update_interval se \<le> now - last_range_update se"
    then show "\<exists>b s. buyLine (UpdateRangeLevels_enhanced se ind now) = Some b
        \<and> sellLine (UpdateRangeLevels_enhanced se ind now) = Some s \<and> b \<le> s"
      by (simp add: enhanced [OF c])
  qed (simp_all add: basic enhanced)
qed

theorem range_refresh_levels_witness:
  "high_IsReady \<lparr>sma_Value = 1.1025, atr_Value = 0.001, atr_IsReady = True,
        high_Value = 1.105, high_IsReady = True, low_Value = 1.1, low_IsReady = True\<rparr>
   \<and> low_IsReady \<lparr>sma_Value = 1.1025, atr_Value = 0.001, atr_IsReady = True,
        high_Value = 1.105, high_IsReady = True, low_Value = 1.1, low_IsReady = True\<rparr>
   \<and> atr_IsReady \<lparr>sma_Value = 1.1025, atr_Value = 0.001, atr_IsReady = True,
        high_Value = 1.105, high_IsReady = True, low_Value = 1.1, low_IsReady = True\<rparr>
   \<and> buyLine Initialize_basic = None
   \<and> buyLine Initialize_enhanced = None
   \<and> (1.1 :: real) \<le> 1.105 \<and> (0 :: real) \<le> 0.001
   \<and> buyLine (UpdateRangeLevels_basic Initialize_basic
        \<lparr>sma_Value = 1.1025, atr_Value = 0.001, atr_IsReady = True,
         high_Value = 1.105, high_IsReady = True, low_Value = 1.1, low_IsReady = True\<rparr>)
       = Some 1.0995
   \<and> sellLine (UpdateRangeLevels_basic Initialize_basic
        \<lparr>sma_Value = 1.1025, atr_Value = 0.001, atr_IsReady = True,
         high_Value = 1.105, high_IsReady = True, low_Value = 1.1, low_IsReady = True\<rparr>)
       = Some 1.1055
   \<and> buyLine (UpdateRangeLevels_enhanced Initialize_enhanced
        \<lparr>sma_Value = 1.1025, atr_Value = 0.001, atr_IsReady = True,
         high_Value = 1.105, high_IsReady = True, low_Value = 1.1, low_IsReady = True\<rparr> 60000000)
       = Some 1.099
   \<and> sellLine (UpdateRangeLevels_enhanced Initialize_enhanced
        \<lparr>sma_Value = 1.1025, atr_Value = 0.001, atr_IsReady = True,
         high_Value = 1.105, high_IsReady = True, low_Value = 1.1, low_IsReady = True\<rparr> 60000000)
       = Some 1.106"
  using range_refresh_levels
    [where ind = "\<lparr>sma_Value = 1.1025, atr_Value = 0.001, atr_IsReady = True,
         high_Value = 1.105, high_IsReady = True, low_Value = 1.1, low_IsReady = True\<rparr>"
       and st = Initialize_basic and se = Initialize_enhanced and now = 60000000]
  by (simp add: Initialize_basic_def Initialize_enhanced_def)

section \<open>Range-bound filter\<close>

lemma IsRangeBound_not_ready: "\<not> bb_IsReady ind \<Longrightarrow> IsRangeBound ind price = Inr False"
  by (simp add: IsRangeBound_def)

lemma IsRangeBound_narrow:
  "\<bar>bb_UpperBand ind - bb_LowerBand ind\<bar> < 0.00001 \<Longrightarrow> IsRangeBound ind price = Inr False"
  by (simp add: IsRangeBound_def Let_def)

lemma IsRangeBound_width:
  "bb_MiddleBand ind \<noteq> 0 \<Longrightarrow>
   \<not> (0.0005 < (bb_UpperBand ind - bb_LowerBand ind) / bb_MiddleBand ind
      \<and> (bb_UpperBand ind - bb_LowerBand ind) / bb_MiddleBand ind < 0.01) \<Longrightarrow>
   IsRangeBound ind price = Inr False"
  unfolding IsRangeBound_def Let_def by (simp only: if_False) auto

lemma IsRangeBound_position:
  "bb_MiddleBand ind \<noteq> 0 \<Longrightarrow>
   \<not> (0.1 < (price - bb_LowerBand ind) / (bb_UpperBand ind - bb_LowerBand ind)
      \<and> (price - bb_LowerBand ind) / (bb_UpperBand ind - bb_LowerBand ind) < 0.9) \<Longrightarrow>
   IsRangeBound ind price = Inr False"
  unfolding IsRangeBound_def Let_def by (simp only: if_False) auto

text \<open>The filter is not constantly false: an input on which it returns true.\<close>

lemma IsRangeBound_passes_example:
  "IsRangeBound \<lparr>sma_Value = 2, atr_Value = 0.001, atr_IsReady = True,
        high_Value = 2.001, high_IsReady = True, low_Value = 2, low_IsReady = True,
        bb_IsReady = True, bb_UpperBand = 2.004, bb_LowerBand = 2, bb_MiddleBand = 2\<rparr> 2.002
       = Inr True"
  by (simp add: IsRangeBound_def)

text \<open>
  The claim C7 at a middle band of zero: the indicator is ready, the bands are 1 and
  \<open>- 1\<close> (wider than the epsilon) and the price is 5, so the price position
  \<open>(5 - (- 1)) / (1 - (- 1)) = 3\<close> lies outside \<open>(0.1, 0.9)\<close>. The call does not
  return false: the division by the middle band, which comes before the price position
  and has no guard, raises.
\<close>

theorem range_bound_filter_zero_middle_counterexample:
  "bb_IsReady \<lparr>sma_Value = 0, atr_Value = 0.001, atr_IsReady = True,
        high_Value = 2.001, high_IsReady = True, low_Value = 2, low_IsReady = True,
        bb_IsReady = True, bb_UpperBand = 1, bb_LowerBand = - 1, bb_MiddleBand = 0\<rparr>
   \<and> \<not> \<bar>(1 :: real) - (- 1)\<bar> < 0.00001
   \<and> \<not> (0.1 < (5 - (- 1)) / (1 - (- 1)) \<and> (5 - (- 1)) / (1 - (- 1)) < (0.9 :: real))
   \<and> IsRangeBound \<lparr>sma_Value = 0, atr_Value = 0.001, atr_IsReady = True,
        high_Value = 2.001, high_IsReady = True, low_Value = 2, low_IsReady = True,
        bb_IsReady = True, bb_UpperBand = 1, bb_LowerBand = - 1, bb_MiddleBand = 0\<rparr> 5
       = Inl ZeroDivisionError
   \<and> IsRangeBound \<lparr>sma_Value = 0, atr_Value = 0.001, atr_IsReady = True,
        high_Value = 2.001, high_IsReady = True, low_Value = 2, low_IsReady = True,
        bb_IsReady = True, bb_UpperBand = 1, bb_LowerBand = - 1, bb_MiddleBand = 0\<rparr> 5
       \<noteq> Inr False"
  by (simp add: IsRangeBound_def)

text \<open>
  C7, amended. \<^verbatim>\<open>IsRangeBound\<close> returns false when the Bollinger indicator is not
  ready and when \<open>\<bar>upper - lower\<bar> < 0.00001\<close>. When the middle band is not zero, it
  also returns false when the band width \<open>(upper - lower) / middle\<close> is not strictly
  between 0.0005 and 0.01 (so also at exactly 0.0005 and at exactly 0.01), and when the
  price position \<open>(price - lower) / (upper - lower)\<close> is not strictly between 0.1 and
  0.9.
\<close>

theorem range_bound_filter_fail_closed:
  "(\<not> bb_IsReady ind \<longrightarrow> IsRangeBound ind price = Inr False)
   \<and> (\<bar>bb_UpperBand ind - bb_LowerBand ind\<bar> < 0.00001 \<longrightarrow> IsRangeBound ind price = Inr False)
   \<and> (bb_MiddleBand ind \<noteq> 0
        \<and> \<not> (0.0005 < (bb_UpperBand ind - bb_LowerBand ind) / bb_MiddleBand ind
              \<and> (bb_UpperBand ind - bb_LowerBand ind) / bb_MiddleBand ind < 0.01)
       \<longrightarrow> IsRangeBound ind price = Inr False)
   \<and> ((bb_UpperBand ind - bb_LowerBand ind) / bb_MiddleBand ind = 0.0005
       \<longrightarrow> IsRangeBound ind price = Inr False)
   \<and> ((bb_UpperBand ind - bb_LowerBand ind) / bb_MiddleBand ind = 0.01
       \<longrightarrow> IsRangeBound ind price = Inr False)
   \<and> (bb_MiddleBand ind \<noteq> 0
        \<and> \<not> (0.1 < (price - bb_LowerBand ind) / (bb_UpperBand ind - bb_LowerBand ind)
              \<and> (price - bb_LowerBand ind) / (bb_UpperBand ind - bb_LowerBand ind) < 0.9)
       \<longrightarrow> IsRangeBound ind price = Inr False)"
proof (intro conjI impI)
  assume "(bb_UpperBand ind - bb_LowerBand ind) / bb_MiddleBand ind = 0.0005"
  then have "bb_MiddleBand ind \<noteq> 0"
    and "\<not> (0.0005 < (bb_UpperBand ind - bb_LowerBand ind) / bb_MiddleBand ind
          \<and> (bb_UpperBand ind - bb_LowerBand ind) / bb_MiddleBand ind < 0.01)"
    by auto
  then show "IsRangeBound ind price = Inr False"
    by (rule IsRangeBound_width)
next
  assume "(bb_UpperBand ind - bb_LowerBand ind) / bb_MiddleBand ind = 0.01"
  then have "bb_MiddleBand ind \<noteq> 0"
    and "\<not> (0.0005 < (bb_UpperBand ind - bb_LowerBand ind) / bb_MiddleBand ind
          \<and> (bb_UpperBand ind - bb_LowerBand ind) / bb_MiddleBand ind < 0.01)"
    by auto
  then show "IsRangeBound ind price = Inr False"
    by (rule IsRangeBound_width)
next
  assume "bb_MiddleBand ind \<noteq> 0
        \<and> \<not> (0.0005 < (bb_UpperBand ind - bb_LowerBand ind) / bb_MiddleBand ind
              \<and> (bb_UpperBand ind - bb_LowerBand ind) / bb_MiddleBand ind < 0.01)"
  then show "IsRangeBound ind price = Inr False"
    using IsRangeBound_width [of ind price] by blast
next
  assume "bb_MiddleBand ind \<noteq> 0
        \<and> \<not> (0.1 < (price - bb_LowerBand ind) / (bb_UpperBand ind - bb_LowerBand ind)
              \<and> (price - bb_LowerBand ind) / (bb_UpperBand ind - bb_LowerBand ind) < 0.9)"
  then show "IsRangeBound ind price = Inr False"
    using IsRangeBound_position [of ind price] by blast
qed (simp_all add: IsRangeBound_not_ready IsRangeBound_narrow)

theorem range_bound_filter_fail_closed_witness:
  "\<not> bb_IsReady \<lparr>sma_Value = 2, atr_Value = 0.001, atr_IsReady = True,
        high_Value = 2.001, high_IsReady = True, low_Value = 2, low_IsReady = True,
        bb_IsReady = False, bb_UpperBand = 2.004, bb_LowerBand = 2, bb_MiddleBand = 2\<rparr>
   \<and> IsRangeBound \<lparr>sma_Value = 2, atr_Value = 0.001, atr_IsReady = True,
        high_Value = 2.001, high_IsReady = True, low_Value = 2, low_IsReady = True,
        bb_IsReady = False, bb_UpperBand = 2.004, bb_LowerBand = 2, bb_MiddleBand = 2\<rparr> 2.002
       = Inr False
   \<and> \<bar>(2.000001 :: real) - 2\<bar> < 0.00001
   \<and> IsRangeBound \<lparr>sma_Value = 2, atr_Value = 0.001, atr_IsReady = True,
        high_Value = 2.001, high_IsReady = True, low_Value = 2, low_IsReady = True,
        bb_IsReady = True, bb_UpperBand = 2.000001, bb_LowerBand = 2, bb_MiddleBand = 2\<rparr> 2
       = Inr False
   \<and> (2.001 - 2) / 2 = (0.0005 :: real)
   \<and> IsRangeBound \<lparr>sma_Value = 2, atr_Value = 0.001, atr_IsReady = True,
        high_Value = 2.001, high_IsReady = True, low_Value = 2, low_IsReady = True,
        bb_IsReady = True, bb_UpperBand = 2.001, bb_LowerBand = 2, bb_MiddleBand = 2\<rparr> 2.0005
       = Inr False
   \<and> (2.02 - 2) / 2 = (0.01 :: real)
   \<and> IsRangeBound \<lparr>sma_Value = 2, atr_Value = 0.001, atr_IsReady = True,
        high_Value = 2.001, high_IsReady = True, low_Value = 2, low_IsReady = True,
        bb_IsReady = True, bb_UpperBand = 2.02, bb_LowerBand = 2, bb_MiddleBand = 2\<rparr> 2.01
       = Inr False
   \<and> (2.0036 - 2) / (2.004 - 2) = (0.9 :: real)
   \<and> IsRangeBound \<lparr>sma_Value = 2, atr_Value = 0.001, atr_IsReady = True,
        high_Value = 2.001, high_IsReady = True, low_Value = 2, low_IsReady = True,
        bb_IsReady = True, bb_UpperBand = 2.004, bb_LowerBand = 2, bb_MiddleBand = 2\<rparr> 2.0036
       = Inr False"
  using
    range_bound_filter_fail_closed
      [of "\<lparr>sma_Value = 2, atr_Value = 0.001, atr_IsReady = True,
        high_Value = 2.001, high_IsReady = True, low_Value = 2, low_IsReady = True,
        bb_IsReady = False, bb_UpperBand = 2.004, bb_LowerBand = 2, bb_MiddleBand = 2\<rparr>" "2.002"]
    range_bound_filter_fail_closed
      [of "\<lparr>sma_Value = 2, atr_Value = 0.001, atr_IsReady = True,
        high_Value = 2.001, high_IsReady = True, low_Value = 2, low_IsReady = True,
        bb_IsReady = True, bb_UpperBand = 2.000001, bb_LowerBand = 2, bb_MiddleBand = 2\<rparr>" 2]
    range_bound_filter_fail_closed
      [of "\<lparr>sma_Value = 2, atr_Value = 0.001, atr_IsReady = True,
        high_Value = 2.001, high_IsReady = True, low_Value = 2, low_IsReady = True,
        bb_IsReady = True, bb_UpperBand = 2.001, bb_LowerBand = 2, bb_MiddleBand = 2\<rparr>" "2.0005"]
    range_bound_filter_fail_closed
      [of "\<lparr>sma_Value = 2, atr_Value = 0.001, atr_IsReady = True,
        high_Value = 2.001, high_IsReady = True, low_Value = 2, low_IsReady = True,
        bb_IsReady = True, bb_UpperBand = 2.02, bb_LowerBand = 2, bb_MiddleBand = 2\<rparr>" "2.01"]
    range_bound_filter_fail_closed
      [of "\<lparr>sma_Value = 2, atr_Value = 0.001, atr_IsReady = True,
        high_Value = 2.001, high_IsReady = True, low_Value = 2, low_IsReady = True,
        bb_IsReady = True, bb_UpperBand = 2.004, bb_LowerBand = 2, bb_MiddleBand = 2\<rparr>" "2.0036"]
  by simp

section \<open>Order entry and fills\<close>

text \<open>
  C8. When the ticket of the market order is not \<open>Filled\<close>, \<^verbatim>\<open>ExecuteBuyOrder\<close> and
  \<^verbatim>\<open>ExecuteSellOrder\<close> either raise before any order is sent (the line is unset) or
  leave the whole state, both counters included, as it was and send the market order
  only. When it is \<open>Filled\<close>, the buy adds \<open>lots\<close> to \<open>openBuyLots\<close> and sends a stop at
  \<open>buyLine - atr\<close> and a limit at \<open>buyLine + atr * r2r\<close>, both for \<open>- lots\<close>; the
  sell adds \<open>lots\<close> to \<open>openSellLots\<close> and sends a stop at \<open>sellLine + atr\<close> and a
  limit at \<open>sellLine - atr * r2r\<close>, both for \<open>lots\<close>.
\<close>

theorem entry_orders_atomic_on_fill:
  "(ticket \<noteq> Filled \<longrightarrow>
      (ExecuteBuyOrder st ind lots ticket = Inl TypeError
         \<or> ExecuteBuyOrder st ind lots ticket = Inr (st, [MarketOrder lots]))
      \<and> (ExecuteSellOrder st ind lots ticket = Inl TypeError
         \<or> ExecuteSellOrder st ind lots ticket = Inr (st, [MarketOrder (- lots)])))
   \<and> (ticket \<noteq> Filled \<and> buyLine st = Some bl \<longrightarrow>
        ExecuteBuyOrder st ind lots ticket = Inr (st, [MarketOrder lots]))
   \<and> (ticket \<noteq> Filled \<and> sellLine st = Some sl \<longrightarrow>
        ExecuteSellOrder st ind lots ticket = Inr (st, [MarketOrder (- lots)]))
   \<and> (buyLine st = Some bl \<longrightarrow>
        ExecuteBuyOrder st ind lots Filled =
          Inr (st\<lparr>openBuyLots := openBuyLots st + lots\<rparr>,
               [MarketOrder lots,
                StopMarketOrder (- lots) (bl - atr_Value ind),
                LimitOrder (- lots) (bl + atr_Value ind * r2r st)]))
   \<and> (sellLine st = Some sl \<longrightarrow>
        ExecuteSellOrder st ind lots Filled =
          Inr (st\<lparr>openSellLots := openSellLots st + lots\<rparr>,
               [MarketOrder (- lots),
                StopMarketOrder lots (sl + atr_Value ind),
                LimitOrder lots (sl - atr_Value ind * r2r st)]))"
  by (simp add: ExecuteBuyOrder_def ExecuteSellOrder_def Let_def split: option.split)

theorem entry_orders_atomic_on_fill_witness:
  "Submitted \<noteq> Filled
   \<and> buyLine (Initialize_basic\<lparr>buyLine := Some 1.0995, sellLine := Some 1.1055\<rparr>) = Some 1.0995
   \<and> sellLine (Initialize_basic\<lparr>buyLine := Some 1.0995, sellLine := Some 1.1055\<rparr>) = Some 1.1055
   \<and> ExecuteBuyOrder (Initialize_basic\<lparr>buyLine := Some 1.0995, sellLine := Some 1.1055\<rparr>)
        \<lparr>sma_Value = 1.1025, atr_Value = 0.001, atr_IsReady = True,
         high_Value = 1.105, high_IsReady = True, low_Value = 1.1, low_IsReady = True\<rparr>
        10000 Submitted
       = Inr (Initialize_basic\<lparr>buyLine := Some 1.0995, sellLine := Some 1.1055\<rparr>,
              [MarketOrder 10000])
   \<and> ExecuteBuyOrder (Initialize_basic\<lparr>buyLine := Some 1.0995, sellLine := Some 1.1055\<rparr>)
        \<lparr>sma_Value = 1.1025, atr_Value = 0.001, atr_IsReady = True,
         high_Value = 1.105, high_IsReady = True, low_Value = 1.1, low_IsReady = True\<rparr>
        10000 Filled
       = Inr (Initialize_basic\<lparr>buyLine := Some 1.0995, sellLine := Some 1.1055,
                openBuyLots := 10000\<rparr>,
              [MarketOrder 10000, StopMarketOrder (- 10000) 1.0985, LimitOrder (- 10000) 1.1015])
   \<and> ExecuteSellOrder (Initialize_basic\<lparr>buyLine := Some 1.0995, sellLine := Some 1.1055\<rparr>)
        \<lparr>sma_Value = 1.1025, atr_Value = 0.001, atr_IsReady = True,
         high_Value = 1.105, high_IsReady = True, low_Value = 1.1, low_IsReady = True\<rparr>
        10000 Filled
       = Inr (Initialize_basic\<lparr>buyLine := Some 1.0995, sellLine := Some 1.1055,
                openSellLots := 10000\<rparr>,
              [MarketOrder (- 10000), StopMarketOrder 10000 1.1065, LimitOrder 10000 1.1035])"
  using entry_orders_atomic_on_fill
    [where ticket = Submitted
       and st = "Initialize_basic\<lparr>buyLine := Some 1.0995, sellLine := Some 1.1055\<rparr>"
       and ind = "\<lparr>sma_Value = 1.1025, atr_Value = 0.001, atr_IsReady = True,
         high_Value = 1.105, high_IsReady = True, low_Value = 1.1, low_IsReady = True\<rparr>"
       and lots = 10000 and bl = "1.0995" and sl = "1.1055"]
  by (simp add: Initialize_basic_def)

text \<open>
  C9. A buy entry of \<open>lots > 0\<close> whose market order fills is counted twice: the fill
  branch of \<^verbatim>\<open>ExecuteBuyOrder\<close> adds \<open>lots\<close>, and \<^verbatim>\<open>OnOrderEvent\<close> on the fill of
  that order (direction Buy, quantity \<open>lots\<close>) adds \<open>lots\<close> again, so
  \<open>openBuyLots\<close> grows by \<open>2 * lots\<close>. The same holds for a sell entry (market order
  of quantity \<open>- lots\<close>) and \<open>openSellLots\<close>.
\<close>

theorem filled_entry_counted_twice:
  assumes "0 < lots"
  shows "(ExecuteBuyOrder st ind lots Filled = Inr (st', reqs) \<longrightarrow>
            openBuyLots (OnOrderEvent st' \<lparr>Status = Filled, Direction = Buy, Quantity = lots\<rparr>)
              = openBuyLots st + 2 * lots)
         \<and> (ExecuteSellOrder st ind lots Filled = Inr (st', reqs) \<longrightarrow>
            openSellLots (OnOrderEvent st' \<lparr>Status = Filled, Direction = Sell, Quantity = - lots\<rparr>)
              = openSellLots st + 2 * lots)"
  using assms
  by (auto simp add: ExecuteBuyOrder_def ExecuteSellOrder_def OnOrderEvent_def Let_def
      split: option.splits)

theorem filled_entry_counted_twice_witness:
  "(0 :: real) < 10000
   \<and> ExecuteBuyOrder (Initialize_basic\<lparr>buyLine := Some 1.0995, sellLine := Some 1.1055\<rparr>)
        \<lparr>sma_Value = 1.1025, atr_Value = 0.001, atr_IsReady = True,
         high_Value = 1.105, high_IsReady = True, low_Value = 1.1, low_IsReady = True\<rparr>
        10000 Filled
       = Inr (Initialize_basic\<lparr>buyLine := Some 1.0995, sellLine := Some 1.1055,
                openBuyLots := 10000\<rparr>,
              [MarketOrder 10000, StopMarketOrder (- 10000) 1.0985, LimitOrder (- 10000) 1.1015])
   \<and> openBuyLots (OnOrderEvent
          (Initialize_basic\<lparr>buyLine := Some 1.0995, sellLine := Some 1.1055, openBuyLots := 10000\<rparr>)
          \<lparr>Status = Filled, Direction = Buy, Quantity = 10000\<rparr>) = 20000
   \<and> ExecuteSellOrder (Initialize_basic\<lparr>buyLine := Some 1.0995, sellLine := Some 1.1055\<rparr>)
        \<lparr>sma_Value = 1.1025, atr_Value = 0.001, atr_IsReady = True,
         high_Value = 1.105, high_IsReady = True, low_Value = 1.1, low_IsReady = True\<rparr>
        10000 Filled
       = Inr (Initialize_basic\<lparr>buyLine := Some 1.0995, sellLine := Some 1.1055,
                openSellLots := 10000\<rparr>,
              [MarketOrder (- 10000), StopMarketOrder 10000 1.1065, LimitOrder 10000 1.1035])
   \<and> openSellLots (OnOrderEvent
          (Initialize_basic\<lparr>buyLine := Some 1.0995, sellLine := Some 1.1055, openSellLots := 10000\<rparr>)
          \<lparr>Status = Filled, Direction = Sell, Quantity = - 10000\<rparr>) = 20000"
  using filled_entry_counted_twice
    [where lots = 10000
       and st = "Initialize_basic\<lparr>buyLine := Some 1.0995, sellLine := Some 1.1055\<rparr>"
       and ind = "\<lparr>sma_Value = 1.1025, atr_Value = 0.001, atr_IsReady = True,
         high_Value = 1.105, high_IsReady = True, low_Value = 1.1, low_IsReady = True\<rparr>"
       and st' = "Initialize_basic\<lparr>buyLine := Some 1.0995, sellLine := Some 1.1055,
                openBuyLots := 10000\<rparr>"
       and reqs = "[MarketOrder 10000, StopMarketOrder (- 10000) 1.0985, LimitOrder (- 10000) 1.1015]"]
    filled_entry_counted_twice
    [where lots = 10000
       and st = "Initialize_basic\<lparr>buyLine := Some 1.0995, sellLine := Some 1.1055\<rparr>"
       and ind = "\<lparr>sma_Value = 1.1025, atr_Value = 0.001, atr_IsReady = True,
         high_Value = 1.105, high_IsReady = True, low_Value = 1.1, low_IsReady = True\<rparr>"
       and st' = "Initialize_basic\<lparr>buyLine := Some 1.0995, sellLine := Some 1.1055,
                openSellLots := 10000\<rparr>"
       and reqs = "[MarketOrder (- 10000), StopMarketOrder 10000 1.1065, LimitOrder 10000 1.1035]"]
  by (simp add: Initialize_basic_def ExecuteBuyOrder_def ExecuteSellOrder_def)

section \<open>Risk overlay\<close>

text \<open>
  What \<^verbatim>\<open>ManageRisk\<close> returns on a funded portfolio: flat targets and a set flag below
  the threshold; the incoming targets and the flag as it was from the threshold up to
  zero; the incoming targets and a cleared flag from zero on.
\<close>

lemma ManageRisk_breach:
  assumes "TotalPortfolioValue pf \<noteq> 0"
    and "TotalUnrealizedProfit pf / TotalPortfolioValue pf < - maximum_drawdown_percent rm"
  shows "ManageRisk rm pf keys targets =
           Inr (rm\<lparr>exit_triggered := True\<rparr>, map (\<lambda>symbol. PortfolioTarget symbol 0) keys)"
  using assms by (simp add: ManageRisk_def Let_def)

lemma ManageRisk_latched_in_band:
  assumes "TotalPortfolioValue pf \<noteq> 0"
    and "- maximum_drawdown_percent rm \<le> TotalUnrealizedProfit pf / TotalPortfolioValue pf"
    and "TotalUnrealizedProfit pf / TotalPortfolioValue pf < 0"
  shows "ManageRisk rm pf keys targets = Inr (rm, targets)"
  using assms by (simp add: ManageRisk_def Let_def)

lemma ManageRisk_recovered:
  assumes "TotalPortfolioValue pf \<noteq> 0"
    and "0 \<le> maximum_drawdown_percent rm"
    and "0 \<le> TotalUnrealizedProfit pf / TotalPortfolioValue pf"
  shows "ManageRisk rm pf keys targets = Inr (rm\<lparr>exit_triggered := False\<rparr>, targets)"
  using assms by (cases "exit_triggered rm") (simp_all add: ManageRisk_def Let_def)

text \<open>
  C1 at a concrete call. The flag is already set, the threshold is 0.02 and the ratio
  is \<open>- 10000 / 1000000 = - 0.01\<close>, inside \<open>[- 0.02, 0)\<close>. The claim asks for the flat
  target \<open>PortfolioTarget EURUSD 0\<close>; \<^verbatim>\<open>ManageRisk\<close> returns the incoming target of
  5000 unchanged, because \<open>exit_triggered\<close> is only ever tested in order to clear it.
\<close>

theorem overlay_latched_in_band_returns_targets:
  "ManageRisk \<lparr>maximum_drawdown_percent = 0.02, exit_triggered = True\<rparr>
     \<lparr>TotalPortfolioValue = 1000000, TotalUnrealizedProfit = - 10000, MarginRemaining = 500000\<rparr>
     [''EURUSD''] [PortfolioTarget ''EURUSD'' 5000]
   = Inr (\<lparr>maximum_drawdown_percent = 0.02, exit_triggered = True\<rparr>,
          [PortfolioTarget ''EURUSD'' 5000])"
  by (simp add: ManageRisk_def)

end
